theory Spec2Isabelle
  imports Complex_Main "HOL-Library.AList" "HOL-Library.Multiset"
begin

section \<open>JavaScript values\<close>

text \<open>
  The controller of \<^verbatim>\<open>ResearchSession\<close> works on values decoded by \<^verbatim>\<open>JSON.parse\<close>, so the
  embedding keeps them untyped. An object is an association list read through its first
  binding of a key; the program never enumerates keys except to copy them (spread), so the
  order of the bindings is not observable. Strings are ASCII.

  A Number is modelled by a rational, the decimal that prints it. A numeric literal
  denotes the binary64 value nearest to it and rounding is monotone, so comparing two
  Numbers, testing one for zero and taking the sign of a difference give on the Numbers
  what they give on these rationals; nothing else is done with Numbers here. \<^verbatim>\<open>NaN\<close> is
  the \<open>None\<close> of \<open>toNumber\<close>; infinities are not modelled.
\<close>

datatype jsval =
    JUndefined
  | JNull
  | JBool bool
  | JNum rat
  | JStr string
  | JArr "jsval list"
  | JObj "(string \<times> jsval) list"

type_synonym obj = "(string \<times> jsval) list"

datatype js_error = TypeError | SyntaxError

text \<open>\<^verbatim>\<open>ToBoolean\<close>: what \<^verbatim>\<open>if (v)\<close>, \<^verbatim>\<open>!v\<close>, \<^verbatim>\<open>a && b\<close> and \<^verbatim>\<open>a || b\<close> test.\<close>

fun truthy :: "jsval \<Rightarrow> bool" where
  "truthy JUndefined = False"
| "truthy JNull = False"
| "truthy (JBool b) = b"
| "truthy (JNum r) = (r \<noteq> 0)"
| "truthy (JStr s) = (s \<noteq> [])"
| "truthy (JArr xs) = True"
| "truthy (JObj kvs) = True"

text \<open>\<^verbatim>\<open>a || b\<close>\<close>

definition or_else :: "jsval \<Rightarrow> jsval \<Rightarrow> jsval" where
  "or_else a b = (if truthy a then a else b)"

text \<open>\<^verbatim>\<open>o.k\<close> on an object: the value bound to \<open>k\<close>, \<^verbatim>\<open>undefined\<close> when there is none.\<close>

definition look :: "obj \<Rightarrow> string \<Rightarrow> jsval" where
  "look kvs k = (case map_of kvs k of None \<Rightarrow> JUndefined | Some v \<Rightarrow> v)"

text \<open>
  \<^verbatim>\<open>v.k\<close> for the property names this program reads (\<^verbatim>\<open>type\<close>, \<^verbatim>\<open>agent\<close>, \<^verbatim>\<open>status\<close>,
  \<^verbatim>\<open>data\<close>, \<^verbatim>\<open>event_type\<close>, \<^verbatim>\<open>hypothesis\<close>, \<^verbatim>\<open>id\<close>, \<^verbatim>\<open>review\<close>, \<^verbatim>\<open>score\<close>,
  \<^verbatim>\<open>ranked_hypotheses\<close>, \<^verbatim>\<open>iteration\<close>, \<^verbatim>\<open>error\<close>). A primitive or an array has none of
  them (\<open>member_of\<close>); reading a property of \<^verbatim>\<open>undefined\<close> or \<^verbatim>\<open>null\<close> throws a TypeError
  (\<open>get_prop\<close>).
\<close>

fun member_of :: "jsval \<Rightarrow> string \<Rightarrow> jsval" where
  "member_of (JObj kvs) k = look kvs k"
| "member_of v k = JUndefined"

fun nullish :: "jsval \<Rightarrow> bool" where
  "nullish JUndefined = True"
| "nullish JNull = True"
| "nullish v = False"

definition get_prop :: "jsval \<Rightarrow> string \<Rightarrow> js_error + jsval" where
  "get_prop v k = (if nullish v then Inl TypeError else Inr (member_of v k))"

text \<open>
  \<^verbatim>\<open>a === b\<close>. Two arrays or two objects are equal only when they are the same reference;
  every comparison in this program is between values decoded from different messages (or
  the initial state), so such a comparison is false.
\<close>

fun strict_eq :: "jsval \<Rightarrow> jsval \<Rightarrow> bool" where
  "strict_eq JUndefined JUndefined = True"
| "strict_eq JNull JNull = True"
| "strict_eq (JBool a) (JBool b) = (a = b)"
| "strict_eq (JNum a) (JNum b) = (a = b)"
| "strict_eq (JStr a) (JStr b) = (a = b)"
| "strict_eq a b = False"

text \<open>Decimal digits of a number, as a template literal or a property key prints it.\<close>

fun show_nat :: "nat \<Rightarrow> string" where
  "show_nat n =
     (if n < 10 then [''0123456789'' ! n]
      else show_nat (n div 10) @ [''0123456789'' ! (n mod 10)])"

declare show_nat.simps [simp del]

text \<open>
  \<^verbatim>\<open>{...v}\<close>: the own enumerable properties of \<open>v\<close>. A string or an array contributes its
  indices, any other primitive nothing.
\<close>

fun spread :: "jsval \<Rightarrow> obj" where
  "spread (JObj kvs) = kvs"
| "spread (JArr xs) = zip (map show_nat [0..<length xs]) xs"
| "spread (JStr s) = zip (map show_nat [0..<length s]) (map (\<lambda>c. JStr [c]) s)"
| "spread v = []"

text \<open>\<^verbatim>\<open>String.prototype.toLowerCase\<close> and \<^verbatim>\<open>String.prototype.trim\<close> on ASCII text.\<close>

definition lower_char :: "char \<Rightarrow> char" where
  "lower_char c =
     (case map_of (zip ''ABCDEFGHIJKLMNOPQRSTUVWXYZ'' ''abcdefghijklmnopqrstuvwxyz'') c of
        Some l \<Rightarrow> l
      | None \<Rightarrow> c)"

text \<open>
  \<^verbatim>\<open>agent.toLowerCase()\<close> on any truthy value: only a string has the method; on a number,
  \<^verbatim>\<open>true\<close>, an array or an object the call is a TypeError (\<open>None\<close>).
\<close>

fun toLowerCase :: "jsval \<Rightarrow> string option" where
  "toLowerCase (JStr s) = Some (map lower_char s)"
| "toLowerCase v = None"

definition is_space :: "char \<Rightarrow> bool" where
  "is_space c = (c \<in> set [CHR 0x09, CHR 0x0A, CHR 0x0B, CHR 0x0C, CHR 0x0D, CHR '' ''])"

definition trim :: "string \<Rightarrow> string" where
  "trim s = rev (dropWhile is_space (rev (dropWhile is_space s)))"

text \<open>
  \<^verbatim>\<open>ToNumber\<close>. The conversion of a string, an array or an object belongs to the language
  runtime and is taken as the parameter \<open>tn\<close>; \<open>None\<close> is \<^verbatim>\<open>NaN\<close>.
\<close>

fun toNumber :: "(jsval \<Rightarrow> rat option) \<Rightarrow> jsval \<Rightarrow> rat option" where
  "toNumber tn (JNum r) = Some r"
| "toNumber tn (JBool b) = Some (if b then 1 else 0)"
| "toNumber tn JNull = Some 0"
| "toNumber tn JUndefined = None"
| "toNumber tn v = tn v"

text \<open>\<^verbatim>\<open>a - b\<close>\<close>

definition js_minus :: "(jsval \<Rightarrow> rat option) \<Rightarrow> jsval \<Rightarrow> jsval \<Rightarrow> rat option" where
  "js_minus tn a b =
     (case (toNumber tn a, toNumber tn b) of
        (Some x, Some y) \<Rightarrow> Some (x - y)
      | _ \<Rightarrow> None)"

text \<open>\<^verbatim>\<open>v >= c\<close> against a numeric literal \<open>c\<close>: false when \<open>v\<close> converts to \<^verbatim>\<open>NaN\<close>.\<close>

definition js_ge :: "(jsval \<Rightarrow> rat option) \<Rightarrow> jsval \<Rightarrow> rat \<Rightarrow> bool" where
  "js_ge tn v c = (case toNumber tn v of Some x \<Rightarrow> c \<le> x | None \<Rightarrow> False)"

section \<open>Controller state\<close>

text \<open>
  One field for each \<^verbatim>\<open>useState\<close> cell of \<^verbatim>\<open>ResearchSession\<close> that a handler writes. The
  entries of \<open>hypotheses\<close> are always objects (each is built by an object literal).
\<close>

record state =
  sessionId :: "string option"
  researchGoal :: string
  hypotheses :: "obj list"
  isStarted :: bool
  error :: jsval
  sessionStatus :: string
  domainContext :: jsval
  domainDetectionLoading :: bool
  maxIterations :: int
  hypothesesPerIteration :: int
  wsConnected :: bool
  currentAgent :: jsval
  iteration :: jsval
  progress :: obj
  isRunning :: bool

definition all_pending :: obj where
  "all_pending =
     [(''generation'', JStr ''pending''),
      (''reflection'', JStr ''pending''),
      (''ranking'', JStr ''pending'')]"

definition all_completed :: obj where
  "all_completed =
     [(''generation'', JStr ''completed''),
      (''reflection'', JStr ''completed''),
      (''ranking'', JStr ''completed'')]"

definition initial_state :: state where
  "initial_state =
     \<lparr> sessionId = None, researchGoal = [], hypotheses = [], isStarted = False,
       error = JNull, sessionStatus = ''idle'', domainContext = JNull,
       domainDetectionLoading = False, maxIterations = 3, hypothesesPerIteration = 1,
       wsConnected = False, currentAgent = JStr [], iteration = JNum 0,
       progress = all_pending, isRunning = False \<rparr>"

section \<open>Channel handlers\<close>

text \<open>
  What a handler call leaves behind. \<open>Done s\<close>: it returned, the state is \<open>s\<close>.
  \<open>Threw s e\<close>: it threw \<open>e\<close>; the setter calls made before the throw stand, giving
  \<open>s\<close>. \<open>RenderCrash e\<close>: it returned, but a state updater it passed to a setter throws
  \<open>e\<close> when React applies it, outside the call and outside any \<^verbatim>\<open>try\<close> of the handler.
\<close>

datatype outcome = Done state | Threw state js_error | RenderCrash js_error

datatype console_entry = ConsoleLog string jsval | ConsoleError string js_error

fun and_then :: "outcome \<Rightarrow> (state \<Rightarrow> outcome) \<Rightarrow> outcome" where
  "and_then (Done s) f = f s"
| "and_then r f = r"

text \<open>
  The updater of the generation branch (lines 218-224). \<open>hypothesis\<close> is truthy where this
  is called, so reading its \<^verbatim>\<open>id\<close> cannot throw.
\<close>

definition addHypothesis :: "jsval \<Rightarrow> obj list \<Rightarrow> obj list" where
  "addHypothesis hypothesis prev =
     (case find (\<lambda>h. strict_eq (look h ''id'') (member_of hypothesis ''id'')) prev of
        None \<Rightarrow> prev @ [AList.update ''isProcessing'' (JBool True) (spread hypothesis)]
      | Some existing \<Rightarrow> prev)"

text \<open>
  The body of the \<^verbatim>\<open>map\<close> in the reflection branch (lines 229-239). \<open>iter\<close> is the
  \<^verbatim>\<open>iteration\<close> binding of the closure the handler belongs to; \<open>review\<close> is \<^verbatim>\<open>data.review\<close>,
  truthy where this is called.
\<close>

definition applyReview :: "jsval \<Rightarrow> jsval \<Rightarrow> obj \<Rightarrow> obj" where
  "applyReview iter review h =
     (if strict_eq (look h ''iteration'') iter \<and> truthy (look h ''isProcessing'') then
        AList.update ''isProcessing'' (JBool False)
          (AList.update ''score'' (or_else (member_of review ''score'') (look h ''score''))
            (AList.update ''review'' (or_else (member_of review ''review'') review) h))
      else h)"

text \<open>
  \<^verbatim>\<open>data.ranked_hypotheses.map(h => ({ ...h, isProcessing: false }))\<close> (line 244), evaluated
  in the handler itself: a truthy value that is not an array has no callable \<^verbatim>\<open>map\<close>.
\<close>

definition notProcessing :: "jsval \<Rightarrow> obj" where
  "notProcessing h = AList.update ''isProcessing'' (JBool False) (spread h)"

fun rankedHypotheses :: "jsval \<Rightarrow> js_error + obj list" where
  "rankedHypotheses (JArr hs) = Inr (map notProcessing hs)"
| "rankedHypotheses v = Inl TypeError"

definition onGeneration :: "jsval \<Rightarrow> jsval \<Rightarrow> state \<Rightarrow> outcome" where
  "onGeneration agent data s =
     (if strict_eq agent (JStr ''generation'') then
        (case get_prop data ''hypothesis'' of
           Inl e \<Rightarrow> Threw s e
         | Inr hypothesis \<Rightarrow>
             if truthy hypothesis
             then Done (s\<lparr>hypotheses := addHypothesis hypothesis (hypotheses s)\<rparr>)
             else Done s)
      else Done s)"

definition onReflection :: "jsval \<Rightarrow> jsval \<Rightarrow> jsval \<Rightarrow> state \<Rightarrow> outcome" where
  "onReflection iter agent data s =
     (if strict_eq agent (JStr ''reflection'') then
        (case get_prop data ''review'' of
           Inl e \<Rightarrow> Threw s e
         | Inr review \<Rightarrow>
             if truthy review
             then Done (s\<lparr>hypotheses := map (applyReview iter review) (hypotheses s)\<rparr>)
             else Done s)
      else Done s)"

definition onRanking :: "jsval \<Rightarrow> jsval \<Rightarrow> state \<Rightarrow> outcome" where
  "onRanking agent data s =
     (if strict_eq agent (JStr ''ranking'') then
        (case get_prop data ''ranked_hypotheses'' of
           Inl e \<Rightarrow> Threw s e
         | Inr ranked \<Rightarrow>
             if truthy ranked then
               (case rankedHypotheses ranked of
                  Inl e \<Rightarrow> Threw s e
                | Inr hs \<Rightarrow> Done (s\<lparr>hypotheses := hs\<rparr>))
             else Done s)
      else Done s)"

text \<open>
  \<^verbatim>\<open>handleAgentUpdate\<close> (lines 197-248). The key of the progress update,
  \<^verbatim>\<open>agent.toLowerCase()\<close>, is computed inside the updater given to \<^verbatim>\<open>setProgress\<close>.
\<close>

definition handleAgentUpdate :: "jsval \<Rightarrow> jsval \<Rightarrow> state \<Rightarrow> outcome" where
  "handleAgentUpdate iter message s =
     (if nullish message then Threw s TypeError
      else
        let agent = member_of message ''agent'';
            status = member_of message ''status'';
            data = member_of message ''data''
        in
          if truthy agent \<and> truthy status then
            (case toLowerCase agent of
               None \<Rightarrow> RenderCrash TypeError
             | Some key \<Rightarrow>
                 let s1 = s\<lparr>currentAgent := agent\<rparr>;
                     s2 = s1\<lparr>progress := AList.update key status (progress s1)\<rparr>;
                     s3 = (if strict_eq status (JStr ''running'')
                           then s2\<lparr>isRunning := True\<rparr> else s2)
                 in
                   if strict_eq status (JStr ''completed'') then
                     and_then (and_then (onGeneration agent data s3)
                       (onReflection iter agent data)) (onRanking agent data)
                   else Done s3)
          else Done s)"

text \<open>\<^verbatim>\<open>handleSessionUpdate\<close> (lines 250-292).\<close>

definition handleSessionUpdate :: "jsval \<Rightarrow> state \<Rightarrow> outcome \<times> console_entry list" where
  "handleSessionUpdate message s =
     (if nullish message then (Threw s TypeError, [])
      else
        let event_type = member_of message ''event_type'';
            data = member_of message ''data''
        in
          if strict_eq event_type (JStr ''research_started'') then
            (Done (s\<lparr>sessionStatus := ''running'', isRunning := True\<rparr>), [])
          else if strict_eq event_type (JStr ''iteration_start'') then
            (case get_prop data ''iteration'' of
               Inl e \<Rightarrow> (Threw s e, [])
             | Inr n \<Rightarrow>
                 if truthy n
                 then (Done (s\<lparr>iteration := n, progress := all_pending\<rparr>), [])
                 else (Done s, []))
          else if strict_eq event_type (JStr ''research_completed'') then
            (Done (s\<lparr>sessionStatus := ''completed'', isStarted := False,
                      isRunning := False, progress := all_completed\<rparr>), [])
          else if strict_eq event_type (JStr ''research_error'') then
            (let s1 = s\<lparr>sessionStatus := ''error''\<rparr> in
             case get_prop data ''error'' of
               Inl e \<Rightarrow> (Threw s1 e, [])
             | Inr err \<Rightarrow>
                 (Done (s1\<lparr>error := or_else err (JStr ''Research session failed''),
                           isStarted := False, isRunning := False\<rparr>), []))
          else (Done s, [ConsoleLog ''Unknown session event:'' event_type]))"

text \<open>\<^verbatim>\<open>handleWebSocketMessage\<close> (lines 182-195).\<close>

definition handleWebSocketMessage ::
  "jsval \<Rightarrow> jsval \<Rightarrow> state \<Rightarrow> outcome \<times> console_entry list" where
  "handleWebSocketMessage iter message s =
     (let received = [ConsoleLog ''Received WebSocket message:'' message] in
      case get_prop message ''type'' of
        Inl e \<Rightarrow> (Threw s e, received)
      | Inr ty \<Rightarrow>
          if strict_eq ty (JStr ''agent_update'') then
            (handleAgentUpdate iter message s, received)
          else if strict_eq ty (JStr ''session_update'') then
            (case handleSessionUpdate message s of (r, logged) \<Rightarrow> (r, received @ logged))
          else (Done s, received @ [ConsoleLog ''Unknown message type:'' ty]))"

text \<open>
  \<^verbatim>\<open>websocket.onmessage\<close> (lines 141-148): \<^verbatim>\<open>JSON.parse\<close> and the dispatch run inside one
  \<^verbatim>\<open>try\<close>, whose \<^verbatim>\<open>catch\<close> only logs. \<open>parsed\<close> is what \<^verbatim>\<open>JSON.parse(event.data)\<close> gives:
  the decoded value, or the SyntaxError it throws.
\<close>

definition onmessage ::
  "jsval \<Rightarrow> js_error + jsval \<Rightarrow> state \<Rightarrow> outcome \<times> console_entry list" where
  "onmessage iter parsed s =
     (case parsed of
        Inl e \<Rightarrow> (Done s, [ConsoleError ''Failed to parse WebSocket message:'' e])
      | Inr message \<Rightarrow>
          (case handleWebSocketMessage iter message s of
             (Threw s' e, logged) \<Rightarrow>
               (Done s', logged @ [ConsoleError ''Failed to parse WebSocket message:'' e])
           | (r, logged) \<Rightarrow> (r, logged)))"

section \<open>Requests and commands\<close>

text \<open>
  What \<^verbatim>\<open>await fetch(...)\<close> and the \<^verbatim>\<open>await response.json()\<close> after it give: a rejection
  with the message of its Error (a network failure), or a response with its HTTP status
  and the outcome of decoding its body (\<open>Inl\<close> the message of the Error thrown).
\<close>

datatype fetch_result =
    FetchRejected string
  | FetchResponse nat "string + jsval"

text \<open>\<^verbatim>\<open>response.ok\<close>\<close>

definition response_ok :: "nat \<Rightarrow> bool" where
  "response_ok status = (200 \<le> status \<and> status \<le> 299)"

definition getDefaultDomainContext :: jsval where
  "getDefaultDomainContext =
     JObj [(''domain'', JStr ''general''),
           (''expert_role'', JStr ''scientific researcher''),
           (''research_focus'', JStr ''scientific research''),
           (''hypothesis_type'', JStr ''research hypothesis'')]"

text \<open>
  \<^verbatim>\<open>detectDomain\<close> (lines 37-60), run when the debounce timer fires, with the result of its
  request.
\<close>

definition detectDomain :: "fetch_result \<Rightarrow> state \<Rightarrow> state" where
  "detectDomain fr s =
     (if length (trim (researchGoal s)) > 15 \<and> \<not> isStarted s then
        (let s1 = s\<lparr>domainDetectionLoading := True\<rparr>;
             s2 = (case fr of
                     FetchRejected m \<Rightarrow> s1\<lparr>domainContext := getDefaultDomainContext\<rparr>
                   | FetchResponse status body \<Rightarrow>
                       if response_ok status then
                         (case body of
                            Inr domain \<Rightarrow> s1\<lparr>domainContext := domain\<rparr>
                          | Inl m \<Rightarrow> s1\<lparr>domainContext := getDefaultDomainContext\<rparr>)
                       else s1)
         in s2\<lparr>domainDetectionLoading := False\<rparr>)
      else if length (trim (researchGoal s)) \<le> 15 then s\<lparr>domainContext := JNull\<rparr>
      else s)"

text \<open>
  \<^verbatim>\<open>startResearch\<close> (lines 294-342). \<open>startResearch_begin\<close> is the part before the request
  is awaited: the two refusals, or the setters of lines 306-313 (\<open>now\<close> is \<^verbatim>\<open>Date.now()\<close>);
  its second component says whether the request was issued. \<open>startResearch_end\<close> is the
  part after the request has settled; it reads no state.
\<close>

definition startResearch_begin :: "nat \<Rightarrow> state \<Rightarrow> state \<times> bool" where
  "startResearch_begin now s =
     (if trim (researchGoal s) = [] then
        (s\<lparr>error := JStr ''Please enter a research goal''\<rparr>, False)
      else if \<not> wsConnected s then
        (s\<lparr>error := JStr ''WebSocket not connected. Please wait and try again.''\<rparr>, False)
      else
        (s\<lparr>error := JNull, isStarted := True, sessionStatus := ''running'',
           hypotheses := [], sessionId := Some (''session_'' @ show_nat now)\<rparr>, True))"

text \<open>The message of the Error that reaches the \<^verbatim>\<open>catch\<close> of \<^verbatim>\<open>startResearch\<close>, if any.\<close>

definition start_failure :: "fetch_result \<Rightarrow> string option" where
  "start_failure fr =
     (case fr of
        FetchRejected m \<Rightarrow> Some m
      | FetchResponse status body \<Rightarrow>
          if \<not> response_ok status then Some (''HTTP error! status: '' @ show_nat status)
          else (case body of Inl m \<Rightarrow> Some m | Inr result \<Rightarrow> None))"

definition startResearch_end :: "fetch_result \<Rightarrow> state \<Rightarrow> state" where
  "startResearch_end fr s =
     (case start_failure fr of
        Some m \<Rightarrow> s\<lparr>error := JStr m, isStarted := False, sessionStatus := ''error''\<rparr>
      | None \<Rightarrow> s)"

definition startResearch :: "nat \<Rightarrow> fetch_result \<Rightarrow> state \<Rightarrow> state" where
  "startResearch now fr s =
     (case startResearch_begin now s of
        (s1, issued) \<Rightarrow> if issued then startResearch_end fr s1 else s1)"

text \<open>\<^verbatim>\<open>stopResearch\<close> (lines 344-351) and \<^verbatim>\<open>resetSession\<close> (lines 353-367).\<close>

definition stopResearch :: "state \<Rightarrow> state" where
  "stopResearch s =
     s\<lparr>isStarted := False, sessionStatus := ''idle'', isRunning := False,
       progress := all_pending, currentAgent := JStr [], iteration := JNum 0\<rparr>"

definition resetSession :: "state \<Rightarrow> state" where
  "resetSession s =
     s\<lparr>sessionId := None, researchGoal := [], hypotheses := [], isStarted := False,
       error := JNull, sessionStatus := ''idle'', isRunning := False,
       progress := all_pending, currentAgent := JStr [], iteration := JNum 0,
       domainContext := JNull, maxIterations := 3, hypothesesPerIteration := 1\<rparr>"

text \<open>
  The two number inputs (lines 499 and 526): \<^verbatim>\<open>parseInt(e.target.value) || 1\<close>, with
  \<open>None\<close> for the \<^verbatim>\<open>NaN\<close> of \<^verbatim>\<open>parseInt\<close>.
\<close>

definition parsed_or_one :: "int option \<Rightarrow> int" where
  "parsed_or_one p = (case p of None \<Rightarrow> 1 | Some n \<Rightarrow> if n = 0 then 1 else n)"

section \<open>Derived views\<close>

text \<open>\<^verbatim>\<open>completedHypotheses\<close> (line 370): the ready subset.\<close>

definition ready :: "obj \<Rightarrow> bool" where
  "ready h =
     (\<not> truthy (look h ''isProcessing'') \<and> truthy (look h ''review'')
      \<and> truthy (look h ''score''))"

definition completedHypotheses :: "obj list \<Rightarrow> obj list" where
  "completedHypotheses hs = filter ready hs"

text \<open>The comparator of line 698: \<^verbatim>\<open>(a, b) => (b.score || 0) - (a.score || 0)\<close>.\<close>

definition compareScore :: "(jsval \<Rightarrow> rat option) \<Rightarrow> obj \<Rightarrow> obj \<Rightarrow> rat option" where
  "compareScore tn a b =
     js_minus tn (or_else (look b ''score'') (JNum 0)) (or_else (look a ''score'') (JNum 0))"

text \<open>
  \<^verbatim>\<open>Array.prototype.sort\<close> with a consistent comparator, where ECMAScript (2019 and later)
  fixes the result: the sort is stable, and \<open>a\<close> goes behind \<open>b\<close> exactly when the
  comparator's result for \<open>(a, b)\<close> is positive. \<open>after a b\<close> is that test. The elements
  are inserted from the right, each in front of the first element it does not go behind.
  Where the comparator is not consistent the language leaves the order to the engine, and
  \<open>array_sort\<close> is not used.
\<close>

fun sort_insert :: "('a \<Rightarrow> 'a \<Rightarrow> bool) \<Rightarrow> 'a \<Rightarrow> 'a list \<Rightarrow> 'a list" where
  "sort_insert after x [] = [x]"
| "sort_insert after x (y # ys) =
     (if after x y then y # sort_insert after x ys else x # y # ys)"

fun array_sort :: "('a \<Rightarrow> 'a \<Rightarrow> bool) \<Rightarrow> 'a list \<Rightarrow> 'a list" where
  "array_sort after [] = []"
| "array_sort after (x # xs) = sort_insert after x (array_sort after xs)"

definition score_after :: "(jsval \<Rightarrow> rat option) \<Rightarrow> obj \<Rightarrow> obj \<Rightarrow> bool" where
  "score_after tn a b = (case compareScore tn a b of Some d \<Rightarrow> 0 < d | None \<Rightarrow> False)"

fun is_number :: "jsval \<Rightarrow> bool" where
  "is_number (JNum r) = True"
| "is_number v = False"

text \<open>
  The list rendered at lines 697-706: the ready subset, sorted. When the score of every
  ready entry is a Number the comparator of line 698 is consistent, and the list is the
  \<open>Some\<close> of the sorted ready subset. The filter of line 370 also admits a score that is
  truthy but not a Number; the comparator then depends on the conversion of the runtime
  and, where its result is \<^verbatim>\<open>NaN\<close>, is not consistent, so that the order is the engine's
  own: for such a collection the model gives no list (\<open>None\<close>).
\<close>

definition sortedHypotheses :: "(jsval \<Rightarrow> rat option) \<Rightarrow> obj list \<Rightarrow> obj list option" where
  "sortedHypotheses tn hs =
     (let rs = completedHypotheses hs in
      if list_all (\<lambda>h. is_number (look h ''score'')) rs
      then Some (array_sort (score_after tn) rs)
      else None)"

text \<open>Descending order of numeric scores: \<open>a\<close> may stand in front of \<open>b\<close>.\<close>

definition score_at_least :: "obj \<Rightarrow> obj \<Rightarrow> bool" where
  "score_at_least a b =
     (case (look a ''score'', look b ''score'') of
        (JNum x, JNum y) \<Rightarrow> y \<le> x
      | _ \<Rightarrow> False)"

definition num_score :: "obj \<Rightarrow> rat" where
  "num_score h = (case look h ''score'' of JNum r \<Rightarrow> r | _ \<Rightarrow> 0)"

text \<open>\<^verbatim>\<open>getScoreColor\<close> and \<^verbatim>\<open>getScoreLabel\<close> of \<^verbatim>\<open>HypothesisCard\<close> (lines 9-21).\<close>

definition getScoreColor :: "(jsval \<Rightarrow> rat option) \<Rightarrow> jsval \<Rightarrow> string" where
  "getScoreColor tn score =
     (if js_ge tn score (8 / 10) then ''#059669''
      else if js_ge tn score (6 / 10) then ''#d97706''
      else if js_ge tn score (4 / 10) then ''#dc2626''
      else ''#6b7280'')"

definition getScoreLabel :: "(jsval \<Rightarrow> rat option) \<Rightarrow> jsval \<Rightarrow> string" where
  "getScoreLabel tn score =
     (if js_ge tn score (8 / 10) then ''High Quality''
      else if js_ge tn score (6 / 10) then ''Good Quality''
      else if js_ge tn score (4 / 10) then ''Moderate Quality''
      else ''Needs Review'')"

section \<open>The controller as a transition system\<close>

text \<open>
  Everything that writes the state of the component: the four socket callbacks (lines
  136-169), the edits of the three inputs, the debounce timer of the domain detection, and
  the three buttons. The two halves of \<^verbatim>\<open>startResearch\<close> are separate events, since other
  events can be handled while its request is pending.
\<close>

datatype event =
    WsOpen
  | WsMessage "js_error + jsval"
  | WsClose
  | WsError
  | WsConnectFailed
  | GoalChanged string
  | MaxIterationsChanged "int option"
  | HypothesesPerIterationChanged "int option"
  | DomainTimerFired fetch_result
  | StartClicked nat
  | StartSettled fetch_result
  | StopClicked
  | ResetClicked

text \<open>The state an outcome leaves; none when the component was torn down by a render error.\<close>

fun resulting :: "outcome \<Rightarrow> state option" where
  "resulting (Done s) = Some s"
| "resulting (Threw s e) = Some s"
| "resulting (RenderCrash e) = None"

text \<open>
  One event. \<open>iter\<close> is the \<^verbatim>\<open>iteration\<close> binding of the handlers installed on the socket:
  the callbacks are created by the effect of lines 131-180, whose dependency list is empty,
  so they are closures of the render that mounted the component and \<open>iter\<close> is one value
  for the whole run. The theorems below that do not fix \<open>iter\<close> hold for every value of
  it.
\<close>

fun fire :: "jsval \<Rightarrow> event \<Rightarrow> state \<Rightarrow> state option" where
  "fire iter WsOpen s = Some (s\<lparr>wsConnected := True\<rparr>)"
| "fire iter (WsMessage parsed) s = resulting (fst (onmessage iter parsed s))"
| "fire iter WsClose s = Some (s\<lparr>wsConnected := False\<rparr>)"
| "fire iter WsError s = Some (s\<lparr>wsConnected := False\<rparr>)"
| "fire iter WsConnectFailed s = Some (s\<lparr>wsConnected := False\<rparr>)"
| "fire iter (GoalChanged text) s = Some (s\<lparr>researchGoal := text\<rparr>)"
| "fire iter (MaxIterationsChanged p) s = Some (s\<lparr>maxIterations := parsed_or_one p\<rparr>)"
| "fire iter (HypothesesPerIterationChanged p) s =
     Some (s\<lparr>hypothesesPerIteration := parsed_or_one p\<rparr>)"
| "fire iter (DomainTimerFired fr) s = Some (detectDomain fr s)"
| "fire iter (StartClicked now) s = Some (fst (startResearch_begin now s))"
| "fire iter (StartSettled fr) s = Some (startResearch_end fr s)"
| "fire iter StopClicked s = Some (stopResearch s)"
| "fire iter ResetClicked s = Some (resetSession s)"

fun run :: "jsval \<Rightarrow> event list \<Rightarrow> state \<Rightarrow> state option" where
  "run iter [] s = Some s"
| "run iter (e # es) s = (case fire iter e s of None \<Rightarrow> None | Some s' \<Rightarrow> run iter es s')"

text \<open>
  The \<^verbatim>\<open>iteration\<close> the installed handlers are bound to: that of the first render, which is
  the initial state's (line 27).
\<close>

definition installed_iteration :: jsval where
  "installed_iteration = iteration initial_state"

text \<open>The progress map has exactly the three agents as keys, each with one of the four statuses.\<close>

definition progress_ok :: "state \<Rightarrow> bool" where
  "progress_ok s =
     (map fst (progress s) = [''generation'', ''reflection'', ''ranking'']
      \<and> list_all (\<lambda>v. v \<in> set (map JStr [''pending'', ''running'', ''completed'', ''error'']))
           (map snd (progress s)))"

text \<open>
  An \<^verbatim>\<open>agent_update\<close> as the channel interface describes it: its agent is, up to case, one
  of the three, and its status one of the four.
\<close>

definition known_agent_update :: "jsval \<Rightarrow> bool" where
  "known_agent_update message =
     (toLowerCase (member_of message ''agent'')
        \<in> set (map Some [''generation'', ''reflection'', ''ranking''])
      \<and> member_of message ''status''
        \<in> set (map JStr [''pending'', ''running'', ''completed'', ''error'']))"

fun interface_event :: "event \<Rightarrow> bool" where
  "interface_event (WsMessage (Inr message)) =
     (get_prop message ''type'' = Inr (JStr ''agent_update'') \<longrightarrow> known_agent_update message)"
| "interface_event e = True"

section \<open>Example inputs\<close>

definition scored :: "string \<Rightarrow> rat \<Rightarrow> bool \<Rightarrow> obj" where
  "scored name r processing =
     [(''id'', JStr name), (''iteration'', JNum 1), (''review'', JStr ''ok''),
      (''score'', JNum r), (''isProcessing'', JBool processing)]"

definition heartbeat :: jsval where
  "heartbeat = JObj [(''type'', JStr ''heartbeat''), (''data'', JObj [])]"

definition agent_update :: "string \<Rightarrow> string \<Rightarrow> obj \<Rightarrow> jsval" where
  "agent_update agent status data =
     JObj [(''type'', JStr ''agent_update''), (''agent'', JStr agent),
           (''status'', JStr status), (''data'', JObj data)]"

definition ranked_c_a :: "jsval list" where
  "ranked_c_a = [JObj (scored ''c'' (9 / 10) True), JObj (scored ''a'' (7 / 10) False)]"

definition ranking_completed :: jsval where
  "ranking_completed =
     agent_update ''ranking'' ''completed'' [(''ranked_hypotheses'', JArr ranked_c_a)]"

definition generated :: "string \<Rightarrow> rat \<Rightarrow> obj" where
  "generated name n =
     [(''id'', JStr name), (''iteration'', JNum n), (''content'', JStr ''text'')]"

definition generation_h1 :: jsval where
  "generation_h1 =
     agent_update ''generation'' ''completed'' [(''hypothesis'', JObj (generated ''h1'' 1))]"

definition review_ok :: jsval where
  "review_ok = JObj [(''review'', JStr ''ok''), (''score'', JNum (9 / 10))]"

definition reflection_ok :: jsval where
  "reflection_ok = agent_update ''reflection'' ''completed'' [(''review'', review_ok)]"

definition generation_h0_scored :: jsval where
  "generation_h0_scored =
     agent_update ''generation'' ''completed''
       [(''hypothesis'', JObj (generated ''h0'' 0 @ [(''score'', JNum (1 / 2))]))]"

definition review_zero :: jsval where
  "review_zero = JObj [(''review'', JStr ''refuted''), (''score'', JNum 0)]"

definition reflection_zero :: jsval where
  "reflection_zero = agent_update ''reflection'' ''completed'' [(''review'', review_zero)]"

definition agent_5_running :: jsval where
  "agent_5_running =
     JObj [(''type'', JStr ''agent_update''), (''agent'', JNum 5),
           (''status'', JStr ''running'')]"

definition research_error_boom :: jsval where
  "research_error_boom =
     JObj [(''type'', JStr ''session_update''), (''event_type'', JStr ''research_error''),
           (''data'', JObj [(''error'', JStr ''boom'')])]"

definition evolution_running :: jsval where
  "evolution_running = agent_update ''evolution'' ''running'' []"

definition generation_running :: jsval where
  "generation_running = agent_update ''Generation'' ''running'' []"

definition example_events :: "event list" where
  "example_events =
     [WsOpen, GoalChanged ''How can we store solar energy?'', StartClicked 1700000000000,
      StartSettled (FetchResponse 200 (Inr (JObj []))),
      WsMessage (Inr generation_running), WsMessage (Inr heartbeat),
      WsMessage (Inl SyntaxError), WsMessage (Inr generation_h1)]"

definition failed_start_events :: "event list" where
  "failed_start_events =
     [WsOpen, GoalChanged ''How can we store solar energy?'',
      WsMessage (Inr generation_running), StartClicked 1700000000000,
      StartSettled (FetchRejected ''Failed to fetch'')]"

definition errored_session_events :: "event list" where
  "errored_session_events =
     [WsOpen, GoalChanged ''How can we store solar energy?'',
      WsMessage (Inr generation_running), StartClicked 1700000000000,
      WsMessage (Inr research_error_boom)]"

definition connected_goal :: state where
  "connected_goal =
     initial_state\<lparr>researchGoal := ''How can we store solar energy?'', wsConnected := True\<rparr>"

definition typed_goal :: state where
  "typed_goal = initial_state\<lparr>researchGoal := ''How can we store solar energy?''\<rparr>"

definition four_hypotheses :: "obj list" where
  "four_hypotheses =
     [scored ''a'' (7 / 10) False, scored ''p'' (95 / 100) True,
      scored ''b'' (7 / 10) False, scored ''c'' (9 / 10) False]"

definition iteration_start_1 :: jsval where
  "iteration_start_1 =
     JObj [(''type'', JStr ''session_update''), (''event_type'', JStr ''iteration_start''),
           (''data'', JObj [(''iteration'', JNum 1)])]"

definition iteration_start_2 :: jsval where
  "iteration_start_2 =
     JObj [(''type'', JStr ''session_update''), (''event_type'', JStr ''iteration_start''),
           (''data'', JObj [(''iteration'', JNum 2)])]"

section \<open>Session commands and score tiers\<close>

text \<open>
  C10. The stop command writes only the started flag, the session status, the running flag,
  the progress map, the current agent and the iteration number: the state after it is the
  state before it with those six fields replaced. In particular the session id, the goal
  text, the hypothesis collection, the error message, the domain context and the two
  configuration values are what they were.
\<close>

theorem stopResearch_frame:
  "stopResearch s =
     s\<lparr>isStarted := isStarted (stopResearch s),
       sessionStatus := sessionStatus (stopResearch s),
       isRunning := isRunning (stopResearch s),
       progress := progress (stopResearch s),
       currentAgent := currentAgent (stopResearch s),
       iteration := iteration (stopResearch s)\<rparr>
   \<and> sessionId (stopResearch s) = sessionId s
   \<and> researchGoal (stopResearch s) = researchGoal s
   \<and> hypotheses (stopResearch s) = hypotheses s
   \<and> error (stopResearch s) = error s
   \<and> domainContext (stopResearch s) = domainContext s
   \<and> maxIterations (stopResearch s) = maxIterations s
   \<and> hypothesesPerIteration (stopResearch s) = hypothesesPerIteration s"
  by (simp add: stopResearch_def)

text \<open>
  C9. The quality tier of a numeric score is inclusive on each lower bound: \<open>0.80\<close> is
  in the top tier (High Quality), \<open>0.799999\<close> in the next one down, and the tiers are
  \<open>[0.8,1]\<close>, \<open>[0.6,0.8)\<close>, \<open>[0.4,0.6)\<close>, \<open>[0,0.4)\<close>, for the label and for the colour.
\<close>

theorem score_tiers:
  "getScoreLabel tn (JNum (80 / 100)) = ''High Quality''
   \<and> getScoreLabel tn (JNum (799999 / 1000000)) = ''Good Quality''
   \<and> (8 / 10 \<le> a \<and> a \<le> 1 \<longrightarrow>
        getScoreLabel tn (JNum a) = ''High Quality'' \<and> getScoreColor tn (JNum a) = ''#059669'')
   \<and> (6 / 10 \<le> b \<and> b < 8 / 10 \<longrightarrow>
        getScoreLabel tn (JNum b) = ''Good Quality'' \<and> getScoreColor tn (JNum b) = ''#d97706'')
   \<and> (4 / 10 \<le> c \<and> c < 6 / 10 \<longrightarrow>
        getScoreLabel tn (JNum c) = ''Moderate Quality''
        \<and> getScoreColor tn (JNum c) = ''#dc2626'')
   \<and> (0 \<le> d \<and> d < 4 / 10 \<longrightarrow>
        getScoreLabel tn (JNum d) = ''Needs Review'' \<and> getScoreColor tn (JNum d) = ''#6b7280'')"
  by (simp add: getScoreLabel_def getScoreColor_def js_ge_def)

theorem score_tiers_witness:
  "(8 / 10 \<le> (9 / 10 :: rat) \<and> (9 / 10 :: rat) \<le> 1)
   \<and> getScoreLabel (\<lambda>v. None) (JNum (9 / 10)) = ''High Quality''
   \<and> (6 / 10 \<le> (7 / 10 :: rat) \<and> (7 / 10 :: rat) < 8 / 10)
   \<and> getScoreLabel (\<lambda>v. None) (JNum (7 / 10)) = ''Good Quality''
   \<and> (4 / 10 \<le> (5 / 10 :: rat) \<and> (5 / 10 :: rat) < 6 / 10)
   \<and> getScoreLabel (\<lambda>v. None) (JNum (5 / 10)) = ''Moderate Quality''
   \<and> (0 \<le> (1 / 10 :: rat) \<and> (1 / 10 :: rat) < 4 / 10)
   \<and> getScoreLabel (\<lambda>v. None) (JNum (1 / 10)) = ''Needs Review''"
  using score_tiers [of "\<lambda>v. None" "9 / 10" "7 / 10" "5 / 10" "1 / 10"]
  by simp

section \<open>Session events\<close>

text \<open>
  C6. Whatever the progress map holds, a \<^verbatim>\<open>session_update\<close> with event
  \<^verbatim>\<open>iteration_start\<close> and \<^verbatim>\<open>data.iteration = 2\<close> sets the iteration number to \<open>2\<close> and the
  three progress entries to \<^verbatim>\<open>pending\<close>, and changes nothing else; this holds for the
  handler and for the message arriving on the socket.
\<close>

theorem iteration_start_resets:
  assumes "get_prop message ''type'' = Inr (JStr ''session_update'')"
    and "get_prop message ''event_type'' = Inr (JStr ''iteration_start'')"
    and "get_prop message ''data'' = Inr data"
    and "get_prop data ''iteration'' = Inr (JNum 2)"
  shows "fst (handleSessionUpdate message s)
           = Done (s\<lparr>iteration := JNum 2, progress := all_pending\<rparr>)
    \<and> fst (onmessage iter (Inr message) s)
           = Done (s\<lparr>iteration := JNum 2, progress := all_pending\<rparr>)
    \<and> look all_pending ''generation'' = JStr ''pending''
    \<and> look all_pending ''reflection'' = JStr ''pending''
    \<and> look all_pending ''ranking'' = JStr ''pending''
    \<and> map fst all_pending = [''generation'', ''reflection'', ''ranking'']"
  using assms
  by (auto simp add: onmessage_def handleWebSocketMessage_def handleSessionUpdate_def
      get_prop_def all_pending_def look_def split: if_splits)

theorem iteration_start_resets_witness:
  "get_prop iteration_start_2 ''type'' = Inr (JStr ''session_update'')
   \<and> get_prop iteration_start_2 ''event_type'' = Inr (JStr ''iteration_start'')
   \<and> get_prop iteration_start_2 ''data'' = Inr (JObj [(''iteration'', JNum 2)])
   \<and> get_prop (JObj [(''iteration'', JNum 2)]) ''iteration'' = Inr (JNum 2)
   \<and> fst (onmessage (JNum 0) (Inr iteration_start_2)
            (initial_state\<lparr>iteration := JNum 1, progress := all_completed\<rparr>))
       = Done (initial_state\<lparr>iteration := JNum 2, progress := all_pending\<rparr>)"
  using iteration_start_resets [of iteration_start_2 "JObj [(''iteration'', JNum 2)]"
      "initial_state\<lparr>iteration := JNum 1, progress := all_completed\<rparr>" "JNum 0"]
  by (simp add: iteration_start_2_def get_prop_def look_def)

section \<open>The ready view\<close>

lemma mset_sort_insert: "mset (sort_insert after x ys) = add_mset x (mset ys)"
  by (induction ys) auto

lemma mset_array_sort: "mset (array_sort after xs) = mset xs"
  by (induction xs) (auto simp: mset_sort_insert)

lemma set_array_sort: "set (array_sort after xs) = set xs"
  by (metis mset_array_sort set_mset_mset)

lemma filter_sort_insert:
  assumes "\<And>y. P x \<Longrightarrow> P y \<Longrightarrow> \<not> after x y"
  shows "filter P (sort_insert after x ys) = filter P (x # ys)"
  using assms by (induction ys) auto

lemma filter_array_sort:
  assumes "\<And>a b. P a \<Longrightarrow> P b \<Longrightarrow> \<not> after a b"
  shows "filter P (array_sort after xs) = filter P xs"
proof (induction xs)
  case Nil
  show ?case by simp
next
  case (Cons x xs)
  have "filter P (array_sort after (x # xs)) = filter P (x # array_sort after xs)"
    using assms by (simp add: filter_sort_insert)
  with Cons show ?case by simp
qed

lemma sorted_sort_insert:
  fixes key :: "'a \<Rightarrow> rat"
  assumes "\<And>y. y \<in> set ys \<Longrightarrow> (after x y \<longleftrightarrow> key x < key y)"
    and "sorted_wrt (\<lambda>a b. key b \<le> key a) ys"
  shows "sorted_wrt (\<lambda>a b. key b \<le> key a) (sort_insert after x ys)"
  using assms
proof (induction ys)
  case Nil
  show ?case by simp
next
  case (Cons y ys)
  show ?case
  proof (cases "after x y")
    case True
    then have xy: "key x < key y" using Cons.prems(1) by simp
    have rest: "sorted_wrt (\<lambda>a b. key b \<le> key a) (sort_insert after x ys)"
      using Cons by simp
    have "\<forall>z \<in> set (sort_insert after x ys). key z \<le> key y"
    proof
      fix z assume "z \<in> set (sort_insert after x ys)"
      then have "z \<in># mset (sort_insert after x ys)" by simp
      then have "z = x \<or> z \<in> set ys" by (simp add: mset_sort_insert)
      then show "key z \<le> key y" using xy Cons.prems(2) by auto
    qed
    with rest True show ?thesis by simp
  next
    case False
    then have "key y \<le> key x" using Cons.prems(1) by auto
    moreover have "\<forall>z \<in> set ys. key z \<le> key y" using Cons.prems(2) by simp
    ultimately show ?thesis using False Cons.prems(2) by auto
  qed
qed

lemma sorted_array_sort:
  fixes key :: "'a \<Rightarrow> rat"
  assumes "\<And>a b. a \<in> set xs \<Longrightarrow> b \<in> set xs \<Longrightarrow> (after a b \<longleftrightarrow> key a < key b)"
  shows "sorted_wrt (\<lambda>a b. key b \<le> key a) (array_sort after xs)"
  using assms
proof (induction xs)
  case Nil
  show ?case by simp
next
  case (Cons x xs)
  have "sorted_wrt (\<lambda>a b. key b \<le> key a) (array_sort after xs)"
    using Cons by simp
  moreover have "\<And>y. y \<in> set (array_sort after xs) \<Longrightarrow> (after x y \<longleftrightarrow> key x < key y)"
    using Cons.prems by (simp add: set_array_sort)
  ultimately show ?case by (simp add: sorted_sort_insert)
qed

lemma same_score_not_after:
  "look a ''score'' = look b ''score'' \<Longrightarrow> \<not> score_after tn a b"
  by (simp add: score_after_def compareScore_def js_minus_def split: option.splits)


lemma ready_numeric_after:
  assumes "ready a" "ready b" "look a ''score'' = JNum x" "look b ''score'' = JNum y"
  shows "score_after tn a b \<longleftrightarrow> x < y"
  using assms by (simp add: score_after_def compareScore_def js_minus_def or_else_def ready_def)

lemma is_number_num_score: "is_number (look h ''score'') \<Longrightarrow> look h ''score'' = JNum (num_score h)"
  by (cases "look h ''score''") (simp_all add: num_score_def)

lemma sorted_numeric:
  assumes "list_all (\<lambda>h. is_number (look h ''score'')) (completedHypotheses hs)"
  shows "sorted_wrt score_at_least (array_sort (score_after tn) (completedHypotheses hs))"
proof -
  let ?rs = "completedHypotheses hs"
  have num: "\<And>h. h \<in> set ?rs \<Longrightarrow> ready h \<and> look h ''score'' = JNum (num_score h)"
    using assms by (auto simp: list_all_iff completedHypotheses_def is_number_num_score)
  have "\<And>a b. a \<in> set ?rs \<Longrightarrow> b \<in> set ?rs \<Longrightarrow>
          (score_after tn a b \<longleftrightarrow> num_score a < num_score b)"
    using num ready_numeric_after by blast
  then have "sorted_wrt (\<lambda>a b. num_score b \<le> num_score a) (array_sort (score_after tn) ?rs)"
    by (rule sorted_array_sort)
  then show "sorted_wrt score_at_least (array_sort (score_after tn) ?rs)"
  proof (rule sorted_wrt_mono_rel [rotated])
    fix a b
    assume "a \<in> set (array_sort (score_after tn) ?rs)" "b \<in> set (array_sort (score_after tn) ?rs)"
      and le: "num_score b \<le> num_score a"
    then have "a \<in> set ?rs" "b \<in> set ?rs" by (simp_all add: set_array_sort)
    with num le show "score_at_least a b"
      by (simp add: score_at_least_def)
  qed
qed

lemma sortedHypotheses_Some:
  "sortedHypotheses tn hs = Some out \<longleftrightarrow>
     list_all (\<lambda>h. is_number (look h ''score'')) (completedHypotheses hs)
     \<and> out = array_sort (score_after tn) (completedHypotheses hs)"
  by (auto simp add: sortedHypotheses_def Let_def)

text \<open>
  C8. For a collection whose ready entries have Numbers as scores, the rendered list
  exists and is the ready subset sorted by score, stably: it is a permutation of the ready
  subset, it is in descending order of score, and the entries that share a score \<open>v\<close>
  stand in it in the order they have in the underlying collection (the comparator looks
  at the score only, so nothing else breaks a tie).
\<close>

theorem ready_view_stable_sort:
  "(list_all (\<lambda>h. is_number (look h ''score'')) (completedHypotheses hs) \<longrightarrow>
      sortedHypotheses tn hs = Some (array_sort (score_after tn) (completedHypotheses hs)))
   \<and> (sortedHypotheses tn hs = Some out \<longrightarrow>
        mset out = mset (completedHypotheses hs)
        \<and> sorted_wrt score_at_least out
        \<and> filter (\<lambda>h. look h ''score'' = v) out
            = filter (\<lambda>h. ready h \<and> look h ''score'' = v) hs)"
proof -
  have stable: "filter (\<lambda>h. look h ''score'' = v)
            (array_sort (score_after tn) (completedHypotheses hs))
          = filter (\<lambda>h. ready h \<and> look h ''score'' = v) hs"
  proof -
    have "filter (\<lambda>h. look h ''score'' = v)
            (array_sort (score_after tn) (completedHypotheses hs))
          = filter (\<lambda>h. look h ''score'' = v) (completedHypotheses hs)"
      by (rule filter_array_sort) (simp add: same_score_not_after)
    then show ?thesis by (simp add: completedHypotheses_def conj_commute)
  qed
  show ?thesis
    using stable sorted_numeric [of hs tn]
    by (auto simp add: sortedHypotheses_Some mset_array_sort)
qed

theorem ready_view_stable_sort_witness:
  "list_all (\<lambda>h. is_number (look h ''score'')) (completedHypotheses four_hypotheses)
   \<and> sortedHypotheses (\<lambda>v. None) four_hypotheses
       = Some [scored ''c'' (9 / 10) False, scored ''a'' (7 / 10) False,
               scored ''b'' (7 / 10) False]
   \<and> filter (\<lambda>h. look h ''score'' = JNum (7 / 10))
       [scored ''c'' (9 / 10) False, scored ''a'' (7 / 10) False, scored ''b'' (7 / 10) False]
       = [scored ''a'' (7 / 10) False, scored ''b'' (7 / 10) False]
   \<and> sorted_wrt score_at_least
       [scored ''c'' (9 / 10) False, scored ''a'' (7 / 10) False, scored ''b'' (7 / 10) False]"
  using ready_view_stable_sort [of four_hypotheses "\<lambda>v. None"
      "[scored ''c'' (9 / 10) False, scored ''a'' (7 / 10) False, scored ''b'' (7 / 10) False]"
      "JNum (7 / 10)"]
  by (simp add: sortedHypotheses_def completedHypotheses_def four_hypotheses_def scored_def
      ready_def look_def score_after_def compareScore_def js_minus_def or_else_def
      score_at_least_def)

text \<open>
  A ready entry whose score is the string \<^verbatim>\<open>x\<close>: the model gives no rendered order.
\<close>

lemma non_numeric_score_unordered:
  "sortedHypotheses tn
     [scored ''a'' (7 / 10) False,
      [(''id'', JStr ''s''), (''review'', JStr ''ok''), (''score'', JStr ''x'')],
      scored ''b'' (7 / 10) False] = None"
  by (simp add: sortedHypotheses_def completedHypotheses_def scored_def ready_def look_def)

section \<open>The dispatcher\<close>

text \<open>
  A payload that \<^verbatim>\<open>JSON.parse\<close> rejects is logged and leaves the state as it was. So
  does a decoded payload whose \<^verbatim>\<open>type\<close> is neither \<^verbatim>\<open>agent_update\<close> nor
  \<^verbatim>\<open>session_update\<close>, and one whose \<^verbatim>\<open>type\<close> cannot even be read (\<^verbatim>\<open>null\<close>): each is
  logged and dropped.
\<close>

lemma unknown_or_undecodable_dropped:
  "onmessage iter (Inl e) s
     = (Done s, [ConsoleError ''Failed to parse WebSocket message:'' e])
   \<and> (get_prop message ''type'' = Inr ty \<and> ty \<noteq> JStr ''agent_update''
        \<and> ty \<noteq> JStr ''session_update'' \<longrightarrow>
        onmessage iter (Inr message) s
          = (Done s, [ConsoleLog ''Received WebSocket message:'' message,
                      ConsoleLog ''Unknown message type:'' ty]))
   \<and> (get_prop message ''type'' = Inl err \<longrightarrow>
        onmessage iter (Inr message) s
          = (Done s, [ConsoleLog ''Received WebSocket message:'' message,
                      ConsoleError ''Failed to parse WebSocket message:'' err]))"
proof -
  have strict: "\<And>ty name. strict_eq ty (JStr name) \<longleftrightarrow> ty = JStr name"
    by (case_tac ty) simp_all
  have a: "onmessage iter (Inl e) s
     = (Done s, [ConsoleError ''Failed to parse WebSocket message:'' e])"
    by (simp add: onmessage_def)
  have b: "get_prop message ''type'' = Inr ty \<and> ty \<noteq> JStr ''agent_update''
        \<and> ty \<noteq> JStr ''session_update'' \<longrightarrow>
        onmessage iter (Inr message) s
          = (Done s, [ConsoleLog ''Received WebSocket message:'' message,
                      ConsoleLog ''Unknown message type:'' ty])"
    by (simp add: onmessage_def handleWebSocketMessage_def strict)
  have c: "get_prop message ''type'' = Inl err \<longrightarrow>
        onmessage iter (Inr message) s
          = (Done s, [ConsoleLog ''Received WebSocket message:'' message,
                      ConsoleError ''Failed to parse WebSocket message:'' err])"
    by (simp add: onmessage_def handleWebSocketMessage_def)
  from a b c show ?thesis by blast
qed

lemma heartbeat_and_null_dropped:
  "fst (onmessage installed_iteration (Inr heartbeat) initial_state) = Done initial_state
   \<and> fst (onmessage installed_iteration (Inr JNull) initial_state) = Done initial_state"
  by (simp add: onmessage_def handleWebSocketMessage_def heartbeat_def get_prop_def look_def)

text \<open>
  C3. Undecodable payloads and payloads of an unknown type are logged and dropped, but
  the dispatch boundary does not contain every malformed payload. For the payload
  \<^verbatim>\<open>{type: "agent_update", agent: 5, status: "running"}\<close> the handler returns, so the
  \<^verbatim>\<open>catch\<close> of \<^verbatim>\<open>onmessage\<close> (lines 141-148) is not entered; the updater it gave to
  \<^verbatim>\<open>setProgress\<close> (lines 204-207) calls \<^verbatim>\<open>agent.toLowerCase()\<close> when it is applied, and the
  TypeError it throws there is raised outside that \<^verbatim>\<open>try\<close>: the component is torn down
  and no state is left.
\<close>

theorem malformed_agent_update_not_contained:
  "get_prop agent_5_running ''type'' = Inr (JStr ''agent_update'')
   \<and> fst (onmessage installed_iteration (Inr agent_5_running) initial_state)
       = RenderCrash TypeError
   \<and> run installed_iteration [WsMessage (Inr agent_5_running)] initial_state = None"
  by (simp add: agent_5_running_def onmessage_def handleWebSocketMessage_def
      handleAgentUpdate_def get_prop_def look_def)

section \<open>Agent updates\<close>

text \<open>
  An \<^verbatim>\<open>agent_update\<close> whose agent is truthy but not a string: the handler returns, and the
  updater it gave to \<^verbatim>\<open>setProgress\<close> throws when it is applied.
\<close>

lemma non_string_agent_crashes:
  "fst (onmessage iter
      (Inr (JObj [(''type'', JStr ''agent_update''), (''agent'', JNum 5),
                  (''status'', JStr ''running'')])) s) = RenderCrash TypeError"
  by (simp add: onmessage_def handleWebSocketMessage_def handleAgentUpdate_def get_prop_def
      look_def)

lemma look_update: "look (AList.update k v al) k' = (if k' = k then v else look al k')"
  by (simp add: look_def update_conv')

lemma handleAgentUpdate_ranking:
  assumes "get_prop message ''agent'' = Inr (JStr ''ranking'')"
    and "get_prop message ''status'' = Inr (JStr ''completed'')"
    and "get_prop message ''data'' = Inr data"
    and "get_prop data ''ranked_hypotheses'' = Inr (JArr ranked)"
  shows "handleAgentUpdate iter message s =
     Done (s\<lparr>currentAgent := JStr ''ranking'',
             progress := AList.update ''ranking'' (JStr ''completed'') (progress s),
             hypotheses := map notProcessing ranked\<rparr>)"
  using assms
  by (auto simp add: handleAgentUpdate_def get_prop_def onGeneration_def onReflection_def
      onRanking_def lower_char_def Let_def split: if_splits)

lemma onmessage_agent_update:
  assumes "get_prop message ''type'' = Inr (JStr ''agent_update'')"
    and "handleAgentUpdate iter message s = Done s'"
  shows "fst (onmessage iter (Inr message) s) = Done s'"
  using assms by (simp add: onmessage_def handleWebSocketMessage_def)

lemma resulting_onmessage:
  "resulting (fst (onmessage iter (Inr message) s))
     = resulting (fst (handleWebSocketMessage iter message s))"
  by (auto simp add: onmessage_def split: prod.splits outcome.splits)

lemma handleAgentUpdate_ranking_completed:
  assumes "get_prop message ''agent'' = Inr (JStr ''ranking'')"
    and "get_prop message ''status'' = Inr (JStr ''completed'')"
  shows "handleAgentUpdate iter message s =
     onRanking (JStr ''ranking'') (member_of message ''data'')
       (s\<lparr>currentAgent := JStr ''ranking'',
          progress := AList.update ''ranking'' (JStr ''completed'') (progress s)\<rparr>)"
  using assms
  by (auto simp add: handleAgentUpdate_def get_prop_def onGeneration_def onReflection_def
      lower_char_def Let_def split: if_splits)

lemma onRanking_cases:
  "(\<forall>t. onRanking agent data t = Done t)
   \<or> (\<exists>e. \<forall>t. onRanking agent data t = Threw t e)
   \<or> (\<exists>hs. \<forall>t. onRanking agent data t = Done (t\<lparr>hypotheses := hs\<rparr>))"
proof (cases "strict_eq agent (JStr ''ranking'')")
  case False
  then show ?thesis by (simp add: onRanking_def)
next
  case agent: True
  show ?thesis
  proof (cases "get_prop data ''ranked_hypotheses''")
    case (Inl e)
    with agent show ?thesis by (simp add: onRanking_def)
  next
    case (Inr ranked)
    show ?thesis
    proof (cases "truthy ranked")
      case False
      with agent Inr show ?thesis by (simp add: onRanking_def)
    next
      case True
      show ?thesis
      proof (cases "rankedHypotheses ranked")
        case (Inl e)
        with agent Inr True show ?thesis by (simp add: onRanking_def)
      next
        case hs: (Inr hs)
        with agent Inr True
        have "\<forall>t. onRanking agent data t = Done (t\<lparr>hypotheses := hs\<rparr>)"
          by (simp add: onRanking_def)
        then show ?thesis by blast
      qed
    qed
  qed
qed

lemma ranking_completed_settles:
  assumes "get_prop message ''agent'' = Inr (JStr ''ranking'')"
    and "get_prop message ''status'' = Inr (JStr ''completed'')"
    and "resulting (handleAgentUpdate iter message s) = Some s1"
  shows "resulting (handleAgentUpdate iter message s1) = Some s1"
proof -
  let ?mark = "\<lambda>u. u\<lparr>currentAgent := JStr ''ranking'',
          progress := AList.update ''ranking'' (JStr ''completed'') (progress u)\<rparr>"
  let ?d = "member_of message ''data''"
  have form: "\<And>u. handleAgentUpdate iter message u = onRanking (JStr ''ranking'') ?d (?mark u)"
    using assms(1,2) by (rule handleAgentUpdate_ranking_completed)
  from assms(3) have r: "resulting (onRanking (JStr ''ranking'') ?d (?mark s)) = Some s1"
    by (simp add: form)
  from onRanking_cases [of "JStr ''ranking''" ?d] show ?thesis
  proof (elim disjE exE)
    assume all: "\<forall>t. onRanking (JStr ''ranking'') ?d t = Done t"
    with r have "s1 = ?mark s" by simp
    then have "?mark s1 = s1" by simp
    with all show ?thesis by (simp add: form)
  next
    fix e assume all: "\<forall>t. onRanking (JStr ''ranking'') ?d t = Threw t e"
    with r have "s1 = ?mark s" by simp
    then have "?mark s1 = s1" by simp
    with all show ?thesis by (simp add: form)
  next
    fix hs assume all: "\<forall>t. onRanking (JStr ''ranking'') ?d t = Done (t\<lparr>hypotheses := hs\<rparr>)"
    with r have "s1 = (?mark s)\<lparr>hypotheses := hs\<rparr>" by simp
    then have "(?mark s1)\<lparr>hypotheses := hs\<rparr> = s1" by simp
    with all show ?thesis by (simp add: form)
  qed
qed

lemma resulting_onmessage_agent:
  assumes "get_prop message ''type'' = Inr (JStr ''agent_update'')"
  shows "resulting (fst (onmessage iter (Inr message) s))
           = resulting (handleAgentUpdate iter message s)"
  using assms
  by (simp add: resulting_onmessage handleWebSocketMessage_def)

text \<open>
  C5. Processing a ranking-completed \<^verbatim>\<open>agent_update\<close> a second time, right after the
  first, leaves the state the first processing left, hence the same ready subset and the
  same rendered list. When \<^verbatim>\<open>data.ranked_hypotheses\<close> is an array, the first processing
  replaces the whole hypothesis collection by that array, each entry with \<^verbatim>\<open>isProcessing\<close>
  false, whatever the collection held.
\<close>

theorem ranking_replay_idempotent:
  assumes "get_prop message ''type'' = Inr (JStr ''agent_update'')"
    and "get_prop message ''agent'' = Inr (JStr ''ranking'')"
    and "get_prop message ''status'' = Inr (JStr ''completed'')"
  shows "(resulting (fst (onmessage iter (Inr message) s)) = Some s1
          \<and> resulting (fst (onmessage iter (Inr message) s1)) = Some s2 \<longrightarrow>
            s2 = s1
            \<and> completedHypotheses (hypotheses s2) = completedHypotheses (hypotheses s1)
            \<and> sortedHypotheses tn (hypotheses s2) = sortedHypotheses tn (hypotheses s1))
     \<and> (get_prop message ''data'' = Inr data
          \<and> get_prop data ''ranked_hypotheses'' = Inr (JArr ranked) \<longrightarrow>
            fst (onmessage iter (Inr message) s) =
              Done (s\<lparr>currentAgent := JStr ''ranking'',
                      progress := AList.update ''ranking'' (JStr ''completed'') (progress s),
                      hypotheses := map notProcessing ranked\<rparr>)
            \<and> list_all (\<lambda>h. look h ''isProcessing'' = JBool False)
                 (map notProcessing ranked))"
proof -
  have replay: "resulting (fst (onmessage iter (Inr message) s)) = Some s1
          \<and> resulting (fst (onmessage iter (Inr message) s1)) = Some s2 \<longrightarrow> s2 = s1"
    using ranking_completed_settles [OF assms(2,3), of iter s s1]
    by (auto simp add: resulting_onmessage_agent [OF assms(1)])
  have replaced: "get_prop message ''data'' = Inr data
          \<and> get_prop data ''ranked_hypotheses'' = Inr (JArr ranked) \<longrightarrow>
            fst (onmessage iter (Inr message) s) =
              Done (s\<lparr>currentAgent := JStr ''ranking'',
                      progress := AList.update ''ranking'' (JStr ''completed'') (progress s),
                      hypotheses := map notProcessing ranked\<rparr>)"
    using handleAgentUpdate_ranking [OF assms(2,3)] onmessage_agent_update [OF assms(1)]
    by simp
  have forced: "list_all (\<lambda>h. look h ''isProcessing'' = JBool False) (map notProcessing ranked)"
    by (simp add: list_all_iff look_update notProcessing_def)
  from replay replaced forced show ?thesis by auto
qed

theorem ranking_replay_idempotent_witness:
  "get_prop ranking_completed ''type'' = Inr (JStr ''agent_update'')
   \<and> get_prop ranking_completed ''agent'' = Inr (JStr ''ranking'')
   \<and> get_prop ranking_completed ''status'' = Inr (JStr ''completed'')
   \<and> get_prop ranking_completed ''data'' = Inr (JObj [(''ranked_hypotheses'', JArr ranked_c_a)])
   \<and> get_prop (JObj [(''ranked_hypotheses'', JArr ranked_c_a)]) ''ranked_hypotheses''
       = Inr (JArr ranked_c_a)
   \<and> map notProcessing ranked_c_a = [scored ''c'' (9 / 10) False, scored ''a'' (7 / 10) False]
   \<and> fst (onmessage (JNum 0) (Inr ranking_completed)
           (initial_state\<lparr>hypotheses := four_hypotheses\<rparr>))
       = Done (initial_state\<lparr>currentAgent := JStr ''ranking'',
                 progress := AList.update ''ranking'' (JStr ''completed'') all_pending,
                 hypotheses := map notProcessing ranked_c_a\<rparr>)
   \<and> resulting (fst (onmessage (JNum 0) (Inr ranking_completed)
           (initial_state\<lparr>currentAgent := JStr ''ranking'',
                 progress := AList.update ''ranking'' (JStr ''completed'') all_pending,
                 hypotheses := map notProcessing ranked_c_a\<rparr>)))
       = Some (initial_state\<lparr>currentAgent := JStr ''ranking'',
                 progress := AList.update ''ranking'' (JStr ''completed'') all_pending,
                 hypotheses := map notProcessing ranked_c_a\<rparr>)"
  using ranking_replay_idempotent [of ranking_completed
      "JNum 0" "initial_state\<lparr>hypotheses := four_hypotheses\<rparr>"
      "initial_state\<lparr>currentAgent := JStr ''ranking'',
                 progress := AList.update ''ranking'' (JStr ''completed'') all_pending,
                 hypotheses := map notProcessing ranked_c_a\<rparr>"
      "initial_state\<lparr>currentAgent := JStr ''ranking'',
                 progress := AList.update ''ranking'' (JStr ''completed'') all_pending,
                 hypotheses := map notProcessing ranked_c_a\<rparr>"
      "\<lambda>v. None"
      "JObj [(''ranked_hypotheses'', JArr ranked_c_a)]" ranked_c_a]
  by (simp add: ranking_completed_def agent_update_def get_prop_def look_def scored_def
      ranked_c_a_def notProcessing_def initial_state_def all_pending_def
      lower_char_def onmessage_def handleWebSocketMessage_def handleAgentUpdate_def
      onGeneration_def onReflection_def onRanking_def Let_def)

section \<open>Domain inference\<close>

lemma detectDomain_not_ok:
  assumes "15 < length (trim (researchGoal s))" "\<not> isStarted s" "\<not> response_ok status"
  shows "detectDomain (FetchResponse status body) s = s\<lparr>domainDetectionLoading := False\<rparr>"
  using assms by (simp add: detectDomain_def)


text \<open>
  C2. With a goal of more than 15 characters typed and no session started, a request that
  is answered with HTTP 500 leaves the domain context \<^verbatim>\<open>null\<close>, as it was: it is not
  replaced by the default context. A rejected request (network error) does give the
  default context. Neither writes the session error.
\<close>

theorem detectDomain_http_failure_keeps_context:
  "\<not> response_ok 500
   \<and> domainContext (detectDomain (FetchResponse 500 (Inl ''unread'')) typed_goal) = JNull
   \<and> domainContext (detectDomain (FetchResponse 500 (Inl ''unread'')) typed_goal)
       \<noteq> getDefaultDomainContext
   \<and> domainContext (detectDomain (FetchRejected ''Failed to fetch'') typed_goal)
       = getDefaultDomainContext
   \<and> error (detectDomain (FetchResponse 500 (Inl ''unread'')) typed_goal) = JNull"
  by (simp add: detectDomain_def typed_goal_def initial_state_def response_ok_def trim_def
      is_space_def getDefaultDomainContext_def)

section \<open>The progress map\<close>

lemma strict_eq_JStr: "strict_eq v (JStr name) \<longleftrightarrow> v = JStr name"
  by (cases v) simp_all

lemma onGeneration_progress:
  "resulting (onGeneration agent data s) = Some s' \<Longrightarrow> progress s' = progress s"
  by (auto simp add: onGeneration_def split: if_splits sum.splits)

lemma onReflection_progress:
  "resulting (onReflection iter agent data s) = Some s' \<Longrightarrow> progress s' = progress s"
  by (auto simp add: onReflection_def split: if_splits sum.splits)

lemma onRanking_progress:
  "resulting (onRanking agent data s) = Some s' \<Longrightarrow> progress s' = progress s"
  by (auto simp add: onRanking_def split: if_splits sum.splits)

lemma and_then_progress:
  assumes "\<And>t t'. resulting (f t) = Some t' \<Longrightarrow> progress t' = progress t"
    and "\<And>t. resulting r = Some t \<Longrightarrow> progress t = p"
    and "resulting (and_then r f) = Some s'"
  shows "progress s' = p"
  using assms by (cases r) auto

lemma completed_chain_progress:
  assumes "resulting (and_then (and_then (onGeneration agent data s)
             (onReflection iter agent data)) (onRanking agent data)) = Some s'"
  shows "progress s' = progress s"
proof (rule and_then_progress [OF _ _ assms])
  show "\<And>t t'. resulting (onRanking agent data t) = Some t' \<Longrightarrow> progress t' = progress t"
    by (rule onRanking_progress)
  show "\<And>t. resulting (and_then (onGeneration agent data s) (onReflection iter agent data)) = Some t
          \<Longrightarrow> progress t = progress s"
    by (rule and_then_progress [where f = "onReflection iter agent data"
          and r = "onGeneration agent data s"])
       (auto dest: onReflection_progress onGeneration_progress)
qed

lemma handleAgentUpdate_progress:
  assumes "resulting (handleAgentUpdate iter message s) = Some s'"
  shows "progress s' = progress s
     \<or> (\<exists>key. toLowerCase (member_of message ''agent'') = Some key
          \<and> progress s' = AList.update key (member_of message ''status'') (progress s))"
proof (cases "nullish message \<or> \<not> (truthy (member_of message ''agent'') \<and> truthy (member_of message ''status''))")
  case True
  then show ?thesis using assms by (auto simp add: handleAgentUpdate_def split: if_splits)
next
  case False
  then obtain key where key: "toLowerCase (member_of message ''agent'') = Some key"
    using assms by (auto simp add: handleAgentUpdate_def Let_def split: option.splits)
  let ?s3 = "if strict_eq (member_of message ''status'') (JStr ''running'')
             then s\<lparr>currentAgent := member_of message ''agent'',
                    progress := AList.update key (member_of message ''status'') (progress s),
                    isRunning := True\<rparr>
             else s\<lparr>currentAgent := member_of message ''agent'',
                    progress := AList.update key (member_of message ''status'') (progress s)\<rparr>"
  have p3: "progress ?s3 = AList.update key (member_of message ''status'') (progress s)"
    by simp
  have "progress s' = progress ?s3"
  proof (cases "strict_eq (member_of message ''status'') (JStr ''completed'')")
    case True
    with False key assms have
      "resulting (and_then (and_then (onGeneration (member_of message ''agent'') (member_of message ''data'') ?s3)
             (onReflection iter (member_of message ''agent'') (member_of message ''data'')))
             (onRanking (member_of message ''agent'') (member_of message ''data''))) = Some s'"
      by (simp add: handleAgentUpdate_def Let_def strict_eq_JStr)
    then show ?thesis by (rule completed_chain_progress)
  next
    case c: False
    with False key assms have "s' = ?s3"
      by (simp add: handleAgentUpdate_def Let_def split: if_splits)
    then show ?thesis by simp
  qed
  with p3 key show ?thesis by simp
qed

lemma progress_ok_update:
  assumes "progress_ok s" and "key \<in> set [''generation'', ''reflection'', ''ranking'']"
    and "status \<in> set (map JStr [''pending'', ''running'', ''completed'', ''error''])"
    and "progress s' = AList.update key status (progress s)"
  shows "progress_ok s'"
proof -
  have keys: "map fst (progress s) = [''generation'', ''reflection'', ''ranking'']"
    using assms(1) by (simp add: progress_ok_def)
  then obtain a b c where p: "progress s = [(''generation'', a), (''reflection'', b), (''ranking'', c)]"
    by (auto simp add: map_eq_Cons_conv)
  show ?thesis using assms p by (auto simp add: progress_ok_def)
qed

lemma progress_ok_cong: "progress s' = progress s \<Longrightarrow> progress_ok s \<Longrightarrow> progress_ok s'"
  by (simp add: progress_ok_def)

lemma handleSessionUpdate_progress:
  assumes "resulting (fst (handleSessionUpdate message s)) = Some s'"
  shows "progress s' = progress s \<or> progress s' = all_pending \<or> progress s' = all_completed"
  using assms
  by (auto simp add: handleSessionUpdate_def Let_def split: if_splits sum.splits)

lemma progress_ok_all: "progress s' = all_pending \<or> progress s' = all_completed \<Longrightarrow> progress_ok s'"
  by (auto simp add: progress_ok_def all_pending_def all_completed_def)

lemma onmessage_progress_ok:
  assumes ok: "progress_ok s" and wf: "interface_event (WsMessage parsed)"
    and res: "resulting (fst (onmessage iter parsed s)) = Some s'"
  shows "progress_ok s'"
proof (cases parsed)
  case (Inl e)
  with res ok show ?thesis by (simp add: onmessage_def)
next
  case (Inr message)
  with res have r: "resulting (fst (handleWebSocketMessage iter message s)) = Some s'"
    by (simp add: resulting_onmessage)
  show ?thesis
  proof (cases "get_prop message ''type''")
    case (Inl e)
    with r ok show ?thesis by (simp add: handleWebSocketMessage_def)
  next
    case ty: (Inr ty)
    consider (agent) "ty = JStr ''agent_update''" | (session) "ty = JStr ''session_update''"
      | (other) "ty \<noteq> JStr ''agent_update''" "ty \<noteq> JStr ''session_update''" by blast
    then show ?thesis
    proof cases
      case agent
      with ty r have h: "resulting (handleAgentUpdate iter message s) = Some s'"
        by (simp add: handleWebSocketMessage_def)
      from agent ty wf Inr have known: "known_agent_update message" by simp
      from handleAgentUpdate_progress [OF h] show ?thesis
      proof
        assume "progress s' = progress s"
        with ok show ?thesis by (simp add: progress_ok_def)
      next
        assume "\<exists>key. toLowerCase (member_of message ''agent'') = Some key
          \<and> progress s' = AList.update key (member_of message ''status'') (progress s)"
        then obtain key where k: "toLowerCase (member_of message ''agent'') = Some key"
          and p: "progress s' = AList.update key (member_of message ''status'') (progress s)"
          by blast
        from known k have "key \<in> set [''generation'', ''reflection'', ''ranking'']"
          by (auto simp add: known_agent_update_def)
        moreover from known have "member_of message ''status''
            \<in> set (map JStr [''pending'', ''running'', ''completed'', ''error''])"
          by (simp add: known_agent_update_def)
        ultimately show ?thesis using ok p by (auto intro: progress_ok_update)
      qed
    next
      case session
      with ty r have "resulting (fst (handleSessionUpdate message s)) = Some s'"
        by (simp add: handleWebSocketMessage_def split: prod.splits)
      from handleSessionUpdate_progress [OF this] ok show ?thesis
        using progress_ok_cong progress_ok_all by blast
    next
      case other
      with ty r ok show ?thesis
        by (simp add: handleWebSocketMessage_def strict_eq_JStr)
    qed
  qed
qed

lemma fire_progress_ok:
  assumes "progress_ok s" "interface_event e" "fire iter e s = Some s'"
  shows "progress_ok s'"
proof (cases e)
  case (WsMessage parsed)
  with assms show ?thesis using onmessage_progress_ok by simp
next
  case (DomainTimerFired fr)
  with assms show ?thesis
    by (auto simp add: progress_ok_def detectDomain_def Let_def split: fetch_result.splits sum.splits if_splits)
next
  case (StartClicked now)
  with assms show ?thesis
    by (auto simp add: progress_ok_def startResearch_begin_def split: if_splits)
next
  case (StartSettled fr)
  with assms show ?thesis
    by (auto simp add: progress_ok_def startResearch_end_def split: option.splits)
next
  case StopClicked
  with assms show ?thesis
    by (auto simp add: progress_ok_def stopResearch_def all_pending_def)
next
  case ResetClicked
  with assms show ?thesis
    by (auto simp add: progress_ok_def resetSession_def all_pending_def)
qed (use assms in \<open>auto simp add: progress_ok_def\<close>)

lemma run_progress_ok:
  assumes "progress_ok s" "list_all interface_event es" "run iter es s = Some s'"
  shows "progress_ok s'"
  using assms
proof (induction es arbitrary: s)
  case Nil
  then show ?case by simp
next
  case (Cons e es)
  then obtain t where t: "fire iter e s = Some t" and rest: "run iter es t = Some s'"
    by (auto split: option.splits)
  from Cons.prems t have "progress_ok t" by (auto intro: fire_progress_ok)
  with Cons rest show ?case by simp
qed


text \<open>
  C4, as amended. In every state the controller reaches from its initial state through
  commands and events, provided every \<^verbatim>\<open>agent_update\<close> among them names, up to letter case,
  one of the agents generation, reflection and ranking, with one of the statuses pending,
  running, completed and error, the progress map has exactly these three keys, each with
  one of these four statuses.
\<close>

theorem progress_keys_invariant:
  assumes "list_all interface_event es"
    and "run iter es initial_state = Some s"
  shows "progress_ok s
    \<and> map fst (progress s) = [''generation'', ''reflection'', ''ranking'']
    \<and> look (progress s) ''generation'' \<in> set (map JStr [''pending'', ''running'', ''completed'', ''error''])
    \<and> look (progress s) ''reflection'' \<in> set (map JStr [''pending'', ''running'', ''completed'', ''error''])
    \<and> look (progress s) ''ranking'' \<in> set (map JStr [''pending'', ''running'', ''completed'', ''error''])"
proof -
  have "progress_ok initial_state"
    by (simp add: progress_ok_def initial_state_def all_pending_def)
  then have ok: "progress_ok s"
    using assms by (rule run_progress_ok)
  then obtain a b c where p: "progress s = [(''generation'', a), (''reflection'', b), (''ranking'', c)]"
    by (auto simp add: progress_ok_def map_eq_Cons_conv)
  with ok show ?thesis by (auto simp add: progress_ok_def look_def)
qed

theorem progress_keys_invariant_witness:
  "list_all interface_event example_events
   \<and> map_option progress (run (JNum 0) example_events initial_state)
       = Some [(''generation'', JStr ''completed''), (''reflection'', JStr ''pending''),
               (''ranking'', JStr ''pending'')]
   \<and> progress_ok (the (run (JNum 0) example_events initial_state))"
  using progress_keys_invariant [of example_events "JNum 0"
      "the (run (JNum 0) example_events initial_state)"]
  by (simp add: example_events_def initial_state_def all_pending_def known_agent_update_def
      generation_running_def generation_h1_def heartbeat_def agent_update_def get_prop_def
      look_def lower_char_def onmessage_def handleWebSocketMessage_def handleAgentUpdate_def
      onGeneration_def onReflection_def onRanking_def addHypothesis_def
      startResearch_begin_def startResearch_end_def start_failure_def response_ok_def
      trim_def is_space_def Let_def)

text \<open>
  C4 as stated fails: \<^verbatim>\<open>handleAgentUpdate\<close> stores the status under whatever the agent
  lower-cases to, so one \<^verbatim>\<open>agent_update\<close> for an agent \<^verbatim>\<open>evolution\<close> leaves a fourth key.
\<close>

theorem unknown_agent_adds_key_counterexample:
  "map_option (\<lambda>s. map fst (progress s))
     (run (JNum 0) [WsMessage (Inr evolution_running)] initial_state)
     = Some [''generation'', ''reflection'', ''ranking'', ''evolution'']"
  by (simp add: evolution_running_def initial_state_def all_pending_def agent_update_def
      get_prop_def look_def lower_char_def onmessage_def handleWebSocketMessage_def
      handleAgentUpdate_def Let_def)

section \<open>Reflection updates\<close>

lemma handleAgentUpdate_reflection:
  assumes "get_prop message ''agent'' = Inr (JStr ''reflection'')"
    and "get_prop message ''status'' = Inr (JStr ''completed'')"
    and "get_prop message ''data'' = Inr data"
    and "get_prop data ''review'' = Inr review"
    and "truthy review"
  shows "handleAgentUpdate iter message s =
     Done (s\<lparr>currentAgent := JStr ''reflection'',
             progress := AList.update ''reflection'' (JStr ''completed'') (progress s),
             hypotheses := map (applyReview iter review) (hypotheses s)\<rparr>)"
  using assms
  by (auto simp add: handleAgentUpdate_def get_prop_def onGeneration_def onReflection_def
      onRanking_def lower_char_def Let_def split: if_splits)

lemma applyReview_matching:
  assumes "strict_eq (look h ''iteration'') iter" and "truthy (look h ''isProcessing'')"
  shows "look (applyReview iter review h) ''review''
           = (if truthy (member_of review ''review'') then member_of review ''review'' else review)
    \<and> look (applyReview iter review h) ''score''
           = (if truthy (member_of review ''score'') then member_of review ''score''
              else look h ''score'')
    \<and> look (applyReview iter review h) ''isProcessing'' = JBool False
    \<and> (k \<notin> set [''review'', ''score'', ''isProcessing''] \<longrightarrow>
           look (applyReview iter review h) k = look h k)"
  using assms by (simp add: applyReview_def look_update or_else_def)

lemma applyReview_other:
  "\<not> (strict_eq (look h ''iteration'') iter \<and> truthy (look h ''isProcessing'')) \<Longrightarrow>
     applyReview iter review h = h"
  by (auto simp add: applyReview_def)

text \<open>
  What a reflection-completed update does to one hypothesis, in terms of the \<open>iter\<close> its
  handler is bound to: \<open>handleAgentUpdate_reflection\<close> for the collection,
  \<open>applyReview_matching\<close> and \<open>applyReview_other\<close> above for an entry. A score of
  \<open>0\<close> in the review is falsy, so the entry keeps the score it had:
\<close>

lemma reflection_score_zero:
  "member_of review_zero ''score'' = JNum 0
   \<and> map_option (\<lambda>s. map (\<lambda>h. (look h ''score'', look h ''isProcessing'')) (hypotheses s))
       (run installed_iteration
          [WsMessage (Inr generation_h0_scored), WsMessage (Inr reflection_zero)]
          initial_state)
       = Some [(JNum (1 / 2), JBool False)]"
  by (simp add: generation_h0_scored_def reflection_zero_def review_zero_def generated_def
      agent_update_def get_prop_def look_def lower_char_def onmessage_def initial_state_def
      installed_iteration_def handleWebSocketMessage_def handleAgentUpdate_def
      onGeneration_def onReflection_def onRanking_def addHypothesis_def applyReview_def
      or_else_def Let_def)

text \<open>
  C1. The reflection branch compares a hypothesis's \<^verbatim>\<open>iteration\<close> with the \<^verbatim>\<open>iteration\<close> of
  the handler's closure (line 230), and the handlers on the socket are those of the first
  render, so the comparison is with \<open>0\<close> and not with the session's current iteration.
  On the claim's scenario, in a session whose current iteration is 1: after the
  generation-completed event for \<^verbatim>\<open>h1\<close> of iteration 1 and the reflection-completed event
  carrying \<^verbatim>\<open>{review: "ok", score: 0.9}\<close>, the state's iteration number is \<open>1\<close>, \<^verbatim>\<open>h1\<close>
  is still processing with no review and no score, and the ready subset is empty, where
  the claim has exactly \<^verbatim>\<open>h1\<close> in it.
\<close>

theorem reflection_compares_first_render_iteration:
  "installed_iteration = JNum 0
   \<and> map_option
       (\<lambda>s. (iteration s,
              map (\<lambda>h. (look h ''id'', look h ''iteration'', look h ''isProcessing'',
                         look h ''review'', look h ''score'')) (hypotheses s),
              completedHypotheses (hypotheses s)))
       (run installed_iteration
          [WsMessage (Inr iteration_start_1), WsMessage (Inr generation_h1),
           WsMessage (Inr reflection_ok)] initial_state)
     = Some (JNum 1, [(JStr ''h1'', JNum 1, JBool True, JUndefined, JUndefined)], [])"
  by (simp add: iteration_start_1_def generation_h1_def reflection_ok_def review_ok_def
      generated_def agent_update_def get_prop_def look_def lower_char_def onmessage_def
      handleWebSocketMessage_def handleAgentUpdate_def handleSessionUpdate_def
      onGeneration_def onReflection_def onRanking_def addHypothesis_def applyReview_def
      initial_state_def installed_iteration_def all_pending_def completedHypotheses_def
      ready_def Let_def)

section \<open>Failure of the start request\<close>

text \<open>
  When the start command passes its two checks and its request fails (the request is
  rejected, or answered with a status outside 200-299, or its body does not decode), the
  message of the failure becomes the session error, the session status becomes
  \<^verbatim>\<open>error\<close> and the started flag is cleared; the running flag is not written. The part of
  the command that runs after the request has settled does this on whatever state \<open>t\<close>
  it finds.
\<close>

lemma start_failure_reported:
  assumes "trim (researchGoal s) \<noteq> []" and "wsConnected s"
    and "start_failure fr = Some m"
  shows "startResearch now fr s =
       s\<lparr>error := JStr m, isStarted := False, sessionStatus := ''error'',
         hypotheses := [], sessionId := Some (''session_'' @ show_nat now)\<rparr>
    \<and> isRunning (startResearch now fr s) = isRunning s
    \<and> startResearch_end fr t = t\<lparr>error := JStr m, isStarted := False, sessionStatus := ''error''\<rparr>
    \<and> start_failure (FetchRejected m') = Some m'
    \<and> (\<not> response_ok status \<longrightarrow>
         start_failure (FetchResponse status body) = Some (''HTTP error! status: '' @ show_nat status))"
  using assms
  by (simp add: startResearch_def startResearch_begin_def startResearch_end_def start_failure_def)

text \<open>
  C7. A failed start request surfaces its message as the session error, sets the status
  to \<^verbatim>\<open>error\<close> and clears the started flag, but the \<^verbatim>\<open>catch\<close> of \<^verbatim>\<open>startResearch\<close> (lines
  336-341) does not clear the running flag: set by an \<^verbatim>\<open>agent_update\<close> with status
  \<^verbatim>\<open>running\<close> before the start command, it is still set after the request has failed.
  The other path into the error status, the \<^verbatim>\<open>research_error\<close> event (lines 282-287),
  clears both flags from the same state.
\<close>

theorem failed_start_keeps_running_flag:
  "map_option (\<lambda>s. (isRunning s, isStarted s, sessionStatus s, error s))
     (run installed_iteration failed_start_events initial_state)
     = Some (True, False, ''error'', JStr ''Failed to fetch'')
   \<and> map_option (\<lambda>s. (isRunning s, isStarted s, sessionStatus s, error s))
     (run installed_iteration errored_session_events initial_state)
     = Some (False, False, ''error'', JStr ''boom'')"
  by (simp add: failed_start_events_def errored_session_events_def initial_state_def
      installed_iteration_def all_pending_def generation_running_def research_error_boom_def
      agent_update_def get_prop_def look_def lower_char_def onmessage_def
      handleWebSocketMessage_def handleAgentUpdate_def handleSessionUpdate_def
      startResearch_begin_def startResearch_end_def start_failure_def response_ok_def
      trim_def is_space_def or_else_def Let_def)

end
